theory Spec2Isabelle
  imports Complex_Main "HOL-Library.Sublist"
begin

section \<open>The conjecture-prove bootstrapping loop of \<^verbatim>\<open>learning/bootstrap.py\<close>\<close>

text \<open>
  The theory embeds \<^verbatim>\<open>teacher_loop\<close>, \<^verbatim>\<open>get_val_loss\<close>, \<^verbatim>\<open>prove_conjectures\<close> and
  \<^verbatim>\<open>get_log_probs\<close>. Python floats are idealised as reals, so \<^verbatim>\<open>/\<close>, \<^verbatim>\<open>sum\<close> and
  \<^verbatim>\<open>np.mean\<close> are exact. An exception is a value of \<open>exn\<close> on the left of a sum.
  Calls to \<^verbatim>\<open>log\<close>, the writes to \<^verbatim>\<open>log.jsonl\<close> and the wall-clock bookkeeping
  (\<^verbatim>\<open>elapsed_time\<close>) have no influence on any other variable and are left out.
\<close>

subsection \<open>Data\<close>

datatype exn =
  ZeroDivisionError | UnboundLocalError | IndexError | FileNotFoundError | KeyError
  | ValueError | UnpicklingError

record HindsightExample =
  goal :: string
  examples :: "string list"
  logprob :: real

text \<open>The field \<^verbatim>\<open>proof\<close> of the source is \<open>proof_object\<close> here.\<close>

record StudentResult =
  error :: "string option"
  success :: bool
  problem :: string
  proof_object :: string
  logprob :: real
  extracted_examples :: "string list"
  hindsight_examples :: "HindsightExample list"
  iterations :: int

text \<open>Python's truth value of \<^verbatim>\<open>student_result.error\<close>, which is \<^verbatim>\<open>None\<close> or a string.\<close>

definition truthy :: "string option \<Rightarrow> bool" where
  "truthy e = (case e of None \<Rightarrow> False | Some s \<Rightarrow> s \<noteq> [])"

definition FAIL :: string where
  "FAIL = ''fail''"

text \<open>
  The collaborators of the loop that live outside the file: the prover worker
  (\<^verbatim>\<open>worker.try_prove\<close>, called with the agent dump, the background theory with its
  premises, the statement and the search budget), \<^verbatim>\<open>d.elaborate\<close>, \<^verbatim>\<open>agent.train\<close>
  (which returns the trained agent here, where the source updates it in place) and
  \<^verbatim>\<open>np.percentile\<close>.
\<close>

record 'a env =
  try_prove :: "'a \<Rightarrow> string \<times> string list \<Rightarrow> string \<Rightarrow> bool \<Rightarrow> StudentResult"
  elaborate :: "string \<Rightarrow> string"
  train :: "'a \<Rightarrow> string list \<Rightarrow> string list \<Rightarrow> real \<Rightarrow> 'a"
  percentile :: "real list \<Rightarrow> real \<Rightarrow> exn + real"

subsection \<open>Dispatch and collection\<close>

text \<open>
  In both modes of \<^verbatim>\<open>DISTRIBUTED\<close> the value \<^verbatim>\<open>get_task_result\<close> gives for a task is
  the worker's result for the submitted job, so a task is identified with that result.
\<close>

definition submit_task ::
  "'a env \<Rightarrow> 'a \<Rightarrow> string \<times> string list \<Rightarrow> string \<Rightarrow> bool \<Rightarrow> StudentResult" where
  "submit_task E agent_dump bt statement search_budget =
     try_prove E agent_dump bt statement search_budget"

definition get_task_result :: "StudentResult \<Rightarrow> StudentResult" where
  "get_task_result task = task"

text \<open>The first loop of \<^verbatim>\<open>prove_conjectures\<close>: one task per conjecture, appended in order.\<close>

fun submit_all ::
  "'a env \<Rightarrow> 'a \<Rightarrow> string \<times> string list \<Rightarrow> bool \<Rightarrow> string list \<Rightarrow> StudentResult list
   \<Rightarrow> StudentResult list" where
  "submit_all E agent_dump bt is_eval [] tasks = tasks"
| "submit_all E agent_dump bt is_eval (conjecture # rest) tasks =
     submit_all E agent_dump bt is_eval rest
       (tasks @ [submit_task E agent_dump bt conjecture is_eval])"

text \<open>The second loop: a result with a truthy \<^verbatim>\<open>error\<close> is skipped by \<^verbatim>\<open>continue\<close>.\<close>

fun collect_results :: "StudentResult list \<Rightarrow> StudentResult list \<Rightarrow> StudentResult list" where
  "collect_results [] student_results = student_results"
| "collect_results (task # tasks) student_results =
     (let student_result = get_task_result task
      in if truthy (error student_result) then collect_results tasks student_results
         else collect_results tasks (student_results @ [student_result]))"

definition prove_conjectures ::
  "'a env \<Rightarrow> 'a \<Rightarrow> string list \<Rightarrow> string \<Rightarrow> string list \<Rightarrow> bool \<Rightarrow> StudentResult list" where
  "prove_conjectures E agent conjectures thy premises is_eval =
     (let agent_dump = agent;
          tasks = submit_all E agent_dump (thy, premises) is_eval conjectures []
      in collect_results tasks [])"

fun get_log_probs_from :: "StudentResult list \<Rightarrow> real list \<Rightarrow> real list" where
  "get_log_probs_from [] success_logprobs = success_logprobs"
| "get_log_probs_from (student_result # rest) success_logprobs =
     (if success student_result
      then get_log_probs_from rest (success_logprobs @ [StudentResult.logprob student_result])
      else get_log_probs_from rest success_logprobs)"

definition get_log_probs :: "StudentResult list \<Rightarrow> real list" where
  "get_log_probs student_results = get_log_probs_from student_results []"

definition get_val_loss ::
  "'a env \<Rightarrow> 'a \<Rightarrow> string list \<Rightarrow> string \<Rightarrow> string list \<Rightarrow> real \<times> int list" where
  "get_val_loss E agent final_goals_formatted thy premises =
     (let student_results_final = prove_conjectures E agent final_goals_formatted thy premises True;
          success_logprobs_final = get_log_probs student_results_final;
          mean_success_logprobs_final =
            (if length success_logprobs_final > 0
             then sum_list success_logprobs_final / real (length success_logprobs_final)
             else - 10);
          num_mcts_steps = map iterations student_results_final
      in (- mean_success_logprobs_final, num_mcts_steps))"

subsection \<open>Outcome statistics\<close>

text \<open>Python's \<^verbatim>\<open>/\<close> on two lengths: it raises when the divisor is zero.\<close>

definition truediv :: "nat \<Rightarrow> nat \<Rightarrow> exn + real" where
  "truediv a b = (if b = 0 then Inl ZeroDivisionError else Inr (real a / real b))"

text \<open>\<^verbatim>\<open>np.mean(xs) if xs else 0\<close>.\<close>

definition mean_or_zero :: "real list \<Rightarrow> real" where
  "mean_or_zero xs = (if xs \<noteq> [] then sum_list xs / real (length xs) else 0)"

text \<open>Lines 130-131: the success log-probabilities and \<^verbatim>\<open>ratio_proven\<close>.\<close>

definition outcome_statistics :: "StudentResult list \<Rightarrow> string list \<Rightarrow> exn + real list \<times> real" where
  "outcome_statistics student_results conjectures =
     (let success_logprobs = get_log_probs student_results
      in case truediv (length success_logprobs) (length conjectures) of
           Inl e \<Rightarrow> Inl e
         | Inr ratio \<Rightarrow> Inr (success_logprobs, ratio))"

subsection \<open>Configuration, files and the state of the loop\<close>

text \<open>
  \<open>continue_dir\<close> is \<^verbatim>\<open>cfg.get('continue')\<close>, \<open>freeze_conjecturer\<close> is
  \<^verbatim>\<open>cfg.get('freeze_conjecturer', False)\<close>, \<open>total_iterations\<close> and \<open>max_mcts_nodes\<close> are
  the options under \<^verbatim>\<open>cfg.agent\<close>, \<open>theory_premises\<close> is \<^verbatim>\<open>cfg.theory.premises\<close> and an entry
  of \<open>difficulty_buckets\<close> is the single item of one of the configured mappings.
\<close>

record cfg =
  continue_dir :: "string option"
  checkpoint_per_iteration :: bool
  freeze_conjecturer :: bool
  total_iterations :: int
  mcts_only :: bool
  train_policy_on_hindsight_examples :: bool
  early_exit :: bool
  difficulty_buckets :: "(string \<times> real) list"
  max_mcts_nodes :: int
  theory_premises :: "string list"

text \<open>What the loop reads before it starts: the goal file and the theory file.\<close>

record loaded =
  final_goals_formatted :: "string list"
  thy :: string

text \<open>
  A file holds a pickled agent, the YAML of \<^verbatim>\<open>model_info\<close> or a JSON list of strings.
  The file system is the list of writes, newest first, keyed by directory and name; a
  read sees the newest write.
\<close>

datatype 'a content = Blob 'a | Yaml "string \<rightharpoonup> int" | Json "string list"

type_synonym 'a filesystem = "((string \<times> string) \<times> 'a content) list"

definition path_exists :: "'a filesystem \<Rightarrow> string \<times> string \<Rightarrow> bool" where
  "path_exists files p = (map_of files p \<noteq> None)"

definition write_file :: "string \<times> string \<Rightarrow> 'a content \<Rightarrow> 'a filesystem \<Rightarrow> 'a filesystem" where
  "write_file p c files = (p, c) # files"

definition torch_load :: "'a filesystem \<Rightarrow> string \<times> string \<Rightarrow> exn + 'a" where
  "torch_load files p =
     (case map_of files p of
        None \<Rightarrow> Inl FileNotFoundError
      | Some (Blob a) \<Rightarrow> Inr a
      | Some _ \<Rightarrow> Inl UnpicklingError)"

definition yaml_load :: "'a filesystem \<Rightarrow> string \<times> string \<Rightarrow> exn + (string \<rightharpoonup> int)" where
  "yaml_load files p =
     (case map_of files p of
        None \<Rightarrow> Inl FileNotFoundError
      | Some (Yaml m) \<Rightarrow> Inr m
      | Some _ \<Rightarrow> Inl ValueError)"

text \<open>The decimal rendering of an integer in an f-string.\<close>

fun digits :: "nat \<Rightarrow> string" where
  "digits n =
     (if n < 10 then [char_of (48 + n)] else digits (n div 10) @ [char_of (48 + n mod 10)])"

definition str_int :: "int \<Rightarrow> string" where
  "str_int i = (if i < 0 then CHR ''-'' # digits (nat (- i)) else digits (nat i))"

definition pt_name :: "int \<Rightarrow> string" where
  "pt_name i = str_int i @ ''.pt''"

record metrics =
  num_iterations :: int
  val_loss :: real
  final_goals_proven :: nat
  ratio_proven :: real
  mean_hard_sol_log_probs :: real

text \<open>
  The variables of \<^verbatim>\<open>teacher_loop\<close> that outlive an iteration, the working directory,
  the files and the records sent to \<^verbatim>\<open>mle_log\<close>. \<open>student_result\<close> is the loop variable
  of the classification loop, unbound (\<open>None\<close>) until that loop has run once.
\<close>

record 'a state =
  agent :: 'a
  proven_conjectures :: "string list"
  seen_hindsight_goals :: "string set"
  proofs :: "string list"
  student_results_final :: "StudentResult list"
  model_info :: "string \<rightharpoonup> int"
  student_result :: "StudentResult option"
  cwd :: string
  files :: "'a filesystem"
  mle_log :: "metrics list"

subsection \<open>Resuming a run\<close>

text \<open>
  Lines 88-90, \<^verbatim>\<open>while os.path.exists(f'{i}.pt'): i += 1\<close>, started at \<open>i\<close> in the
  directory \<open>d\<close>.
\<close>

function scan_checkpoints :: "'a filesystem \<Rightarrow> string \<Rightarrow> nat \<Rightarrow> nat" where
  "scan_checkpoints fs d i =
     (if path_exists fs (d, pt_name (int i)) then scan_checkpoints fs d (i + 1) else i)"
  by pat_completeness auto

text \<open>Reading a decimal rendering back, to see that distinct indices name distinct files.\<close>

definition undigits :: "string \<Rightarrow> nat" where
  "undigits s = foldl (\<lambda>a c. 10 * a + (of_char c - 48)) 0 s"

lemma undigits_digits: "undigits (digits n) = n"
proof (induction n rule: digits.induct)
  case (1 n)
  show ?case
  proof (cases "n < 10")
    case True
    then show ?thesis by (subst digits.simps) (simp add: undigits_def)
  next
    case False
    with 1 have ih: "undigits (digits (n div 10)) = n div 10" by simp
    have "n mod 10 < 10" by simp
    then have m: "(48 + n mod 10) mod 256 = 48 + n mod 10" by simp
    have "undigits (digits n) = 10 * undigits (digits (n div 10)) + n mod 10"
      using False by (subst digits.simps) (simp add: undigits_def m)
    with ih show ?thesis by simp
  qed
qed

lemma inj_digits: "inj digits"
  by (rule inj_on_inverseI[where g = undigits]) (rule undigits_digits)

lemma inj_pt_name_nat: "inj (\<lambda>j::nat. pt_name (int j))"
  by (rule injI) (simp add: pt_name_def str_int_def inj_digits[THEN injD])

lemma finite_checkpoints: "finite {j::nat. path_exists fs (d, pt_name (int j))}"
proof -
  have "{j::nat. path_exists fs (d, pt_name (int j))}
          \<subseteq> (\<lambda>j. (d, pt_name (int j))) -` (fst ` set fs)"
    by (auto simp: path_exists_def map_of_eq_None_iff)
  moreover have "inj (\<lambda>j::nat. (d, pt_name (int j)))"
    using inj_pt_name_nat by (auto simp: inj_def)
  then have "finite ((\<lambda>j. (d, pt_name (int j))) -` (fst ` set fs))"
    by (intro finite_vimageI) simp_all
  ultimately show ?thesis by (rule finite_subset)
qed

termination scan_checkpoints
proof (relation "measure (\<lambda>(fs, d, i). card {j. i \<le> j \<and> path_exists fs (d, pt_name (int j))})")
  show "wf (measure (\<lambda>(fs :: 'a filesystem, d, i). card {j. i \<le> j \<and> path_exists fs (d, pt_name (int j))}))"
    by simp
next
  fix fs :: "'a filesystem" and d i
  assume ex: "path_exists fs (d, pt_name (int i))"
  let ?S = "\<lambda>k. {j. k \<le> j \<and> path_exists fs (d, pt_name (int j))}"
  have fin: "finite (?S i)"
    by (rule finite_subset[OF _ finite_checkpoints[of fs d]]) auto
  have "i \<in> ?S i" "i \<notin> ?S (i + 1)" "?S (i + 1) \<subseteq> ?S i"
    using ex by auto
  then have "?S (i + 1) \<subset> ?S i"
    by blast
  then have "card (?S (i + 1)) < card (?S i)"
    using fin by (rule psubset_card_mono[rotated])
  then show "((fs, d, i + 1), (fs, d, i))
        \<in> measure (\<lambda>(fs, d, i). card {j. i \<le> j \<and> path_exists fs (d, pt_name (int j))})"
    by simp
qed

declare digits.simps [simp del]

declare scan_checkpoints.simps [simp del]

text \<open>
  Lines 79-98. The result is \<^verbatim>\<open>start_iteration\<close>, the agent, \<^verbatim>\<open>model_info\<close> and the
  working directory. \<open>a0\<close> is the agent of \<^verbatim>\<open>make_agent\<close> and \<open>d0\<close> the directory the
  process starts in; \<^verbatim>\<open>os.chdir\<close> is taken with an absolute path of an existing
  directory.
\<close>

definition resume ::
  "cfg \<Rightarrow> 'a \<Rightarrow> 'a filesystem \<Rightarrow> string \<Rightarrow> exn + int \<times> 'a \<times> (string \<rightharpoonup> int) \<times> string" where
  "resume C a0 fs d0 =
     (case continue_dir C of
        None \<Rightarrow> Inr (0, a0, Map.empty, d0)
      | Some d \<Rightarrow>
          if checkpoint_per_iteration C then
            (let i = scan_checkpoints fs d 0
             in case torch_load fs (d, pt_name (int i)) of
                  Inl e \<Rightarrow> Inl e
                | Inr a \<Rightarrow> Inr (int i, a, Map.empty, d))
          else
            (case torch_load fs (d, ''model.pt'') of
               Inl e \<Rightarrow> Inl e
             | Inr a \<Rightarrow>
                 (case yaml_load fs (d, ''model_info.yaml'') of
                    Inl e \<Rightarrow> Inl e
                  | Inr mi \<Rightarrow>
                      (case mi ''iteration'' of
                         None \<Rightarrow> Inl KeyError
                       | Some k \<Rightarrow> Inr (k + 1, a, mi, d)))))"

subsection \<open>Classification and hindsight examples\<close>

definition conj_example :: "'a env \<Rightarrow> string \<Rightarrow> string \<Rightarrow> string" where
  "conj_example E outcome p = ''Conj:('' @ outcome @ '') '' @ elaborate E p"

text \<open>
  Lines 141-156, the loop over \<^verbatim>\<open>student_results\<close>; the triple holds \<^verbatim>\<open>examples\<close>,
  \<^verbatim>\<open>proven_conjectures_iteration\<close> and the state.
\<close>

fun classify ::
  "'a env \<Rightarrow> cfg \<Rightarrow> StudentResult list \<Rightarrow> string list \<times> string list \<times> 'a state
   \<Rightarrow> string list \<times> string list \<times> 'a state" where
  "classify E C [] acc = acc"
| "classify E C (r # rest) (exs, pci, st) =
     (let outcome = (if success r then ''hard'' else FAIL);
          exs1 = (if \<not> freeze_conjecturer C then exs @ [conj_example E outcome (problem r)]
                  else exs);
          pci1 = (if success r then pci @ [problem r] else pci);
          st1 = (if success r
                 then st\<lparr>proven_conjectures := proven_conjectures st @ [problem r],
                         proofs := proofs st @ [proof_object r]\<rparr>
                 else st);
          exs2 = exs1 @ extracted_examples r
      in classify E C rest (exs2, pci1, st1\<lparr>student_result := Some r\<rparr>))"

text \<open>
  Lines 161-169, the loop over the hindsight examples of the one result \<open>sr\<close>; the
  triple holds \<^verbatim>\<open>examples\<close>, \<^verbatim>\<open>seen_hindsight_goals\<close> and \<^verbatim>\<open>hindsight_log_probs\<close>.
\<close>

fun hindsight_loop ::
  "'a env \<Rightarrow> cfg \<Rightarrow> StudentResult \<Rightarrow> HindsightExample list
   \<Rightarrow> string list \<times> string set \<times> real list \<Rightarrow> string list \<times> string set \<times> real list" where
  "hindsight_loop E C sr [] acc = acc"
| "hindsight_loop E C sr (h # hs) (exs, seen, hlp) =
     (if goal h \<notin> seen then
        (let outcome = ''hard'';
             exs1 = (if \<not> freeze_conjecturer C then exs @ [conj_example E outcome (problem sr)]
                     else exs);
             exs2 = exs1 @ examples h
         in hindsight_loop E C sr hs
              (exs2, insert (goal h) seen, hlp @ [HindsightExample.logprob h]))
      else hindsight_loop E C sr hs (exs, seen, hlp))"

text \<open>Lines 65-67: the buckets sorted by percentile (Python's sort is stable).\<close>

definition sorted_buckets :: "cfg \<Rightarrow> (string \<times> real) list" where
  "sorted_buckets C = sort_key snd (difficulty_buckets C)"

text \<open>Lines 171-172: one call of \<^verbatim>\<open>np.percentile\<close> per bucket; the first that raises ends it.\<close>

fun compute_thresholds ::
  "(real list \<Rightarrow> real \<Rightarrow> exn + real) \<Rightarrow> real list \<Rightarrow> (string \<times> real) list \<Rightarrow> exn + real list" where
  "compute_thresholds pc hlp [] = Inr []"
| "compute_thresholds pc hlp ((name, p) # bs) =
     (case pc hlp p of
        Inl e \<Rightarrow> Inl e
      | Inr t \<Rightarrow>
          (case compute_thresholds pc hlp bs of
             Inl e \<Rightarrow> Inl e
           | Inr ts \<Rightarrow> Inr (t # ts)))"

text \<open>\<^verbatim>\<open>thresholds[0]\<close>.\<close>

definition first_of :: "'b list \<Rightarrow> exn + 'b" where
  "first_of xs = (case xs of [] \<Rightarrow> Inl IndexError | x # _ \<Rightarrow> Inr x)"

text \<open>
  Lines 158-174, outside the classification loop: \<^verbatim>\<open>student_result\<close> is whatever that
  loop variable was bound to last. The result holds \<^verbatim>\<open>examples\<close>, the recomputed
  \<^verbatim>\<open>mean_hard_sol_log_prob\<close> and the state.
\<close>

definition hindsight_step ::
  "'a env \<Rightarrow> cfg \<Rightarrow> 'a state \<Rightarrow> string list \<Rightarrow> exn + string list \<times> real \<times> 'a state" where
  "hindsight_step E C st exs =
     (case student_result st of
        None \<Rightarrow> Inl UnboundLocalError
      | Some sr \<Rightarrow>
          (case hindsight_loop E C sr (hindsight_examples sr) (exs, {}, []) of
             (exs1, seen, hindsight_log_probs) \<Rightarrow>
               (case compute_thresholds (percentile E) hindsight_log_probs (sorted_buckets C) of
                  Inl e \<Rightarrow> Inl e
                | Inr thresholds \<Rightarrow>
                    (case first_of thresholds of
                       Inl e \<Rightarrow> Inl e
                     | Inr t0 \<Rightarrow>
                         (let hard_sol_log_probs = filter (\<lambda>lp. lp \<ge> t0) hindsight_log_probs
                          in Inr (exs1, mean_or_zero hard_sol_log_probs,
                                  st\<lparr>seen_hindsight_goals := seen\<rparr>))))))"

subsection \<open>One iteration and the loop\<close>

text \<open>Line 136, \<^verbatim>\<open>student_results.extend(student_results_final)\<close>.\<close>

definition extend_results :: "StudentResult list \<Rightarrow> 'a state \<Rightarrow> StudentResult list" where
  "extend_results student_results st = student_results @ student_results_final st"

text \<open>
  Lines 109-174. \<open>None\<close> is the \<^verbatim>\<open>break\<close> of \<^verbatim>\<open>mcts_only\<close>; otherwise the result holds
  \<^verbatim>\<open>examples\<close>, \<^verbatim>\<open>proven_conjectures_iteration\<close>, \<^verbatim>\<open>ratio_proven\<close>,
  \<^verbatim>\<open>mean_hard_sol_log_prob\<close> and the state.
\<close>

definition round_examples ::
  "'a env \<Rightarrow> cfg \<Rightarrow> loaded \<Rightarrow> 'a state
   \<Rightarrow> exn + (string list \<times> string list \<times> real \<times> real \<times> 'a state) option" where
  "round_examples E C G st =
     (let conjectures = final_goals_formatted G;
          student_results =
            prove_conjectures E (agent st) conjectures (thy G) (theory_premises C) False
      in if mcts_only C then Inr None
         else
           (case outcome_statistics student_results conjectures of
              Inl e \<Rightarrow> Inl e
            | Inr (success_logprobs, ratio) \<Rightarrow>
                (let student_results1 = extend_results student_results st;
                     mean0 = mean_or_zero success_logprobs
                 in case classify E C student_results1 ([], [], st) of
                      (exs, pci, st1) \<Rightarrow>
                        if train_policy_on_hindsight_examples C then
                          (case hindsight_step E C st1 exs of
                             Inl e \<Rightarrow> Inl e
                           | Inr (exs2, mean1, st2) \<Rightarrow> Inr (Some (exs2, pci, ratio, mean1, st2)))
                        else Inr (Some (exs, pci, ratio, mean0, st1)))))"

text \<open>Lines 206-214.\<close>

definition save_iteration :: "cfg \<Rightarrow> int \<Rightarrow> string list \<Rightarrow> string list \<Rightarrow> 'a state \<Rightarrow> 'a state" where
  "save_iteration C i exs pci st =
     (let fs1 = write_file (cwd st, ''examples_'' @ str_int i @ ''.json'') (Json exs) (files st);
          fs2 = write_file (cwd st, ''proven_conj_'' @ str_int i @ ''.json'') (Json pci) fs1
      in if checkpoint_per_iteration C
         then st\<lparr>files := write_file (cwd st, pt_name i) (Blob (agent st)) fs2\<rparr>
         else
           (let fs3 = write_file (cwd st, ''model.pt'') (Blob (agent st)) fs2;
                mi = (model_info st)(''iteration'' \<mapsto> i)
            in st\<lparr>model_info := mi,
                   files := write_file (cwd st, ''model_info.yaml'') (Yaml mi) fs3\<rparr>))"

text \<open>Line 60.\<close>

definition final_goals :: "loaded \<Rightarrow> string list" where
  "final_goals G = map (\<lambda>g. ''Conj:(hard) '' @ g) (final_goals_formatted G)"

datatype ctl = Next | SearchOnlyBreak | ConvergedBreak

text \<open>The body of the loop, lines 107-220.\<close>

definition iteration ::
  "'a env \<Rightarrow> cfg \<Rightarrow> loaded \<Rightarrow> int \<Rightarrow> 'a state \<Rightarrow> exn + ctl \<times> 'a state" where
  "iteration E C G i st =
     (case round_examples E C G st of
        Inl e \<Rightarrow> Inl e
      | Inr None \<Rightarrow> Inr (SearchOnlyBreak, st)
      | Inr (Some (exs, pci, ratio, mean, st1)) \<Rightarrow>
          (let agent1 = train E (agent st1) exs (final_goals G) ratio
           in case get_val_loss E agent1 (final_goals_formatted G) (thy G) (theory_premises C) of
                (vl, num_mcts_steps) \<Rightarrow>
                  (let proven = filter (\<lambda>s. s \<le> max_mcts_nodes C) num_mcts_steps;
                       st2 = st1\<lparr>agent := agent1,
                                 mle_log := mle_log st1 @
                                   [\<lparr>num_iterations = i, val_loss = vl,
                                     final_goals_proven = length proven,
                                     ratio_proven = ratio,
                                     mean_hard_sol_log_probs = mean\<rparr>]\<rparr>;
                       st3 = save_iteration C i exs pci st2
                   in if length proven = length (final_goals G) \<and> early_exit C
                      then Inr (ConvergedBreak, st3)
                      else Inr (Next, st3))))"

text \<open>
  How the loop ended: the range ran out, one of the two \<^verbatim>\<open>break\<close>s was taken in the
  iteration given, or that iteration raised. With \<open>Raised\<close> the state is the one the
  iteration started from: every step that can raise comes before the iteration's
  writes, so its files are the files on disk.
\<close>

datatype stop = Exhausted | SearchOnly int | Converged int | Raised int exn

text \<open>\<^verbatim>\<open>for i in range(start_iteration, cfg.agent.policy.total_iterations)\<close>.\<close>

function teacher_iterations ::
  "'a env \<Rightarrow> cfg \<Rightarrow> loaded \<Rightarrow> int \<Rightarrow> 'a state \<Rightarrow> stop \<times> 'a state" where
  "teacher_iterations E C G i st =
     (if i < total_iterations C then
        (case iteration E C G i st of
           Inl e \<Rightarrow> (Raised i e, st)
         | Inr (Next, st1) \<Rightarrow> teacher_iterations E C G (i + 1) st1
         | Inr (SearchOnlyBreak, st1) \<Rightarrow> (SearchOnly i, st1)
         | Inr (ConvergedBreak, st1) \<Rightarrow> (Converged i, st1))
      else (Exhausted, st))"
  by pat_completeness auto
termination
  by (relation "measure (\<lambda>(E, C, G, i, st). nat (total_iterations C - i))") auto

declare teacher_iterations.simps [simp del]

text \<open>Lines 73-80: the variables as they are when the loop is entered.\<close>

definition initial_state ::
  "'a \<Rightarrow> (string \<rightharpoonup> int) \<Rightarrow> string \<Rightarrow> 'a filesystem \<Rightarrow> 'a state" where
  "initial_state a mi d fs =
     \<lparr>agent = a, proven_conjectures = [], seen_hindsight_goals = {}, proofs = [],
      student_results_final = [], model_info = mi, student_result = None,
      cwd = d, files = fs, mle_log = []\<rparr>"

definition teacher_loop ::
  "'a env \<Rightarrow> cfg \<Rightarrow> loaded \<Rightarrow> 'a \<Rightarrow> 'a filesystem \<Rightarrow> string \<Rightarrow> exn + stop \<times> 'a state" where
  "teacher_loop E C G a0 fs d0 =
     (case resume C a0 fs d0 of
        Inl e \<Rightarrow> Inl e
      | Inr (start_iteration, a, mi, d) \<Rightarrow>
          Inr (teacher_iterations E C G start_iteration (initial_state a mi d fs)))"

text \<open>
  The loop head is reached with index \<open>i\<close> and state \<open>st\<close> in the run of \<^verbatim>\<open>teacher_loop\<close>
  started with the agent \<open>a0\<close> on the files \<open>fs\<close> in the directory \<open>d0\<close>.
\<close>

inductive reachable ::
  "'a env \<Rightarrow> cfg \<Rightarrow> loaded \<Rightarrow> 'a \<Rightarrow> 'a filesystem \<Rightarrow> string \<Rightarrow> int \<Rightarrow> 'a state \<Rightarrow> bool"
  for E C G a0 fs d0 where
  start: "resume C a0 fs d0 = Inr (i, a, mi, d) \<Longrightarrow>
          reachable E C G a0 fs d0 i (initial_state a mi d fs)"
| step: "reachable E C G a0 fs d0 i st \<Longrightarrow> i < total_iterations C \<Longrightarrow>
         iteration E C G i st = Inr (Next, st1) \<Longrightarrow>
         reachable E C G a0 fs d0 (i + 1) st1"

text \<open>
  The first iteration that did not reach its checkpoint in a run of the loop from \<open>i0\<close>,
  read off how the loop ended: an iteration that raised or took the \<^verbatim>\<open>break\<close> of
  \<^verbatim>\<open>mcts_only\<close> did not, the iteration of the \<^verbatim>\<open>break\<close> of \<^verbatim>\<open>early_exit\<close> did, and so did
  every iteration the loop went past.
\<close>

definition next_iteration :: "int \<Rightarrow> int \<Rightarrow> stop \<Rightarrow> int" where
  "next_iteration n i0 how =
     (case how of
        Exhausted \<Rightarrow> max i0 n
      | SearchOnly j \<Rightarrow> j
      | Converged j \<Rightarrow> j + 1
      | Raised j e \<Rightarrow> j)"

text \<open>
  The rolling checkpoint on disk is the one of iteration \<open>k\<close>: \<^verbatim>\<open>model.pt\<close> holds the
  agent of the state and \<^verbatim>\<open>model_info.yaml\<close> its \<^verbatim>\<open>model_info\<close>, with \<open>k\<close> under
  \<^verbatim>\<open>iteration\<close>.
\<close>

definition rolling_checkpoint :: "'a state \<Rightarrow> int \<Rightarrow> bool" where
  "rolling_checkpoint st k =
     (torch_load (files st) (cwd st, ''model.pt'') = Inr (agent st)
      \<and> yaml_load (files st) (cwd st, ''model_info.yaml'') = Inr (model_info st)
      \<and> model_info st ''iteration'' = Some k)"

subsection \<open>Example inputs\<close>

text \<open>
  A stand-in for \<^verbatim>\<open>np.percentile\<close> with its default linear interpolation: it rejects a
  percentile outside \<open>[0, 100]\<close> and an empty sample.
\<close>

definition np_percentile :: "real list \<Rightarrow> real \<Rightarrow> exn + real" where
  "np_percentile xs q =
     (if q < 0 \<or> 100 < q then Inl ValueError
      else if xs = [] then Inl IndexError
      else (let s = sort xs;
                pos = q / 100 * real (length xs - 1);
                lo = nat \<lfloor>pos\<rfloor>;
                hi = nat \<lceil>pos\<rceil>
            in Inr (s ! lo + (pos - real lo) * (s ! hi - s ! lo))))"

definition result_of ::
  "string \<Rightarrow> string option \<Rightarrow> bool \<Rightarrow> real \<Rightarrow> int \<Rightarrow> HindsightExample list \<Rightarrow> StudentResult" where
  "result_of p err ok lp n hs =
     \<lparr>error = err, success = ok, problem = p, proof_object = ''proof of '' @ p, logprob = lp,
      extracted_examples = [''step of '' @ p], hindsight_examples = hs, iterations = n\<rparr>"

text \<open>
  A worker that proves \<open>g1\<close> and \<open>g2\<close>, with log-probabilities \<open>-1\<close> and \<open>-2\<close> in 5 and 8
  search steps, and reports an error for every other statement.
\<close>

definition demo_try_prove :: "nat \<Rightarrow> string \<times> string list \<Rightarrow> string \<Rightarrow> bool \<Rightarrow> StudentResult" where
  "demo_try_prove a bt statement ev =
     (if statement = ''g1'' then result_of ''g1'' None True (- 1) 5 []
      else if statement = ''g2'' then result_of ''g2'' None True (- 2) 8 []
      else result_of statement (Some ''worker crashed'') False 0 0 [])"

definition demo_env :: "nat env" where
  "demo_env =
     \<lparr>try_prove = demo_try_prove, elaborate = (\<lambda>p. p),
      train = (\<lambda>a exs goals ratio. a + 1), percentile = np_percentile\<rparr>"

definition demo_cfg :: cfg where
  "demo_cfg =
     \<lparr>continue_dir = None, checkpoint_per_iteration = False, freeze_conjecturer = False,
      total_iterations = 1000000, mcts_only = False,
      train_policy_on_hindsight_examples = False, early_exit = True,
      difficulty_buckets = [(''easy'', 50), (''hard'', 20)], max_mcts_nodes = 10,
      theory_premises = []\<rparr>"

definition demo_loaded :: loaded where
  "demo_loaded = \<lparr>final_goals_formatted = [''g1'', ''bad'', ''g2''], thy = ''t''\<rparr>"

definition demo_state :: "nat state" where
  "demo_state = initial_state 0 Map.empty ''run'' []"

text \<open>A run directory holding the checkpoints of iterations 0 and 1.\<close>

definition two_checkpoints :: "nat filesystem" where
  "two_checkpoints = [((''run'', ''1.pt''), Blob 1), ((''run'', ''0.pt''), Blob 0)]"

definition resume_cfg :: cfg where
  "resume_cfg = demo_cfg\<lparr>continue_dir := Some ''run'', checkpoint_per_iteration := True\<rparr>"

text \<open>
  A worker that fails on both goals and reports, for each, one hindsight example with
  the same goal \<open>h\<close>.
\<close>

definition hindsight_try_prove ::
  "nat \<Rightarrow> string \<times> string list \<Rightarrow> string \<Rightarrow> bool \<Rightarrow> StudentResult" where
  "hindsight_try_prove a bt statement ev =
     (if statement = ''g1''
      then result_of ''g1'' None False 0 30 [\<lparr>goal = ''h'', examples = [''a''], logprob = - 1\<rparr>]
      else result_of ''g2'' None False 0 30 [\<lparr>goal = ''h'', examples = [''b''], logprob = - 2\<rparr>])"

definition hindsight_env :: "nat env" where
  "hindsight_env = demo_env\<lparr>try_prove := hindsight_try_prove\<rparr>"

definition hindsight_cfg :: cfg where
  "hindsight_cfg = demo_cfg\<lparr>train_policy_on_hindsight_examples := True\<rparr>"

definition two_goals :: loaded where
  "two_goals = \<lparr>final_goals_formatted = [''g1'', ''g2''], thy = ''t''\<rparr>"

text \<open>
  A worker that fails and reports four hindsight examples, the third with the goal of
  the first.
\<close>

definition rich_try_prove :: "nat \<Rightarrow> string \<times> string list \<Rightarrow> string \<Rightarrow> bool \<Rightarrow> StudentResult" where
  "rich_try_prove a bt statement ev =
     result_of statement None False 0 30
       [\<lparr>goal = ''h1'', examples = [''a''], logprob = - 3\<rparr>,
        \<lparr>goal = ''h2'', examples = [''b''], logprob = - 1\<rparr>,
        \<lparr>goal = ''h1'', examples = [''c''], logprob = - 5\<rparr>,
        \<lparr>goal = ''h3'', examples = [''d''], logprob = - 2\<rparr>]"

definition rich_env :: "nat env" where
  "rich_env = demo_env\<lparr>try_prove := rich_try_prove\<rparr>"

definition one_goal :: loaded where
  "one_goal = \<lparr>final_goals_formatted = [''g1''], thy = ''t''\<rparr>"

text \<open>The demonstration configuration with two iterations and no early exit.\<close>

definition short_cfg :: cfg where
  "short_cfg = demo_cfg\<lparr>total_iterations := 2, early_exit := False\<rparr>"

section \<open>The dispatcher\<close>

lemma submit_all_map:
  "submit_all E d bt ev cs tasks = tasks @ map (\<lambda>c. try_prove E d bt c ev) cs"
  by (induction cs arbitrary: tasks) (simp_all add: submit_task_def)

lemma collect_results_filter:
  "collect_results tasks acc = acc @ filter (\<lambda>r. \<not> truthy (error r)) tasks"
  by (induction tasks arbitrary: acc) (simp_all add: get_task_result_def)

lemma prove_conjectures_filter:
  "prove_conjectures E a cs th ps ev =
     filter (\<lambda>r. \<not> truthy (error r)) (map (\<lambda>c. try_prove E a (th, ps) c ev) cs)"
  by (simp add: prove_conjectures_def submit_all_map collect_results_filter)

lemma get_log_probs_from_filter:
  "get_log_probs_from rs acc = acc @ map StudentResult.logprob (filter success rs)"
  by (induction rs arbitrary: acc) simp_all

lemma get_log_probs_filter:
  "get_log_probs rs = map StudentResult.logprob (filter success rs)"
  by (simp add: get_log_probs_def get_log_probs_from_filter)

text \<open>
  C4. For every list of submitted conjectures the dispatcher returns exactly the worker
  results whose \<open>error\<close> is empty, in submission order: the returned list is the
  subsequence of the per-conjecture results that keeps the non-errored ones, none of
  what it returns carries an error, every non-errored result is returned, and its length
  is at most the number of conjectures.
\<close>

theorem prove_conjectures_drops_errors:
  fixes E :: "'a env"
  defines "results cs a th ps ev \<equiv>
             map (\<lambda>c. try_prove E a (th, ps) c ev) cs"
  shows "prove_conjectures E a cs th ps ev =
           filter (\<lambda>r. \<not> truthy (error r)) (results cs a th ps ev)
         \<and> subseq (prove_conjectures E a cs th ps ev) (results cs a th ps ev)
         \<and> set (prove_conjectures E a cs th ps ev) =
             {r \<in> set (results cs a th ps ev). \<not> truthy (error r)}
         \<and> length (prove_conjectures E a cs th ps ev) \<le> length cs"
proof -
  let ?all = "results cs a th ps ev"
  have eq: "prove_conjectures E a cs th ps ev = filter (\<lambda>r. \<not> truthy (error r)) ?all"
    by (simp add: prove_conjectures_filter results_def)
  have len: "length (filter (\<lambda>r. \<not> truthy (error r)) ?all) \<le> length ?all"
    by (rule length_filter_le)
  have "length ?all = length cs"
    by (simp add: results_def)
  with len eq show ?thesis
    by (simp add: subseq_filter_left)
qed

theorem prove_conjectures_drops_errors_witness:
  "prove_conjectures demo_env (0::nat) [''g1'', ''bad'', ''g2''] ''t'' [] False =
     [result_of ''g1'' None True (- 1) 5 [], result_of ''g2'' None True (- 2) 8 []]
   \<and> length (prove_conjectures demo_env (0::nat) [''g1'', ''bad'', ''g2''] ''t'' [] False) \<le> 3"
  using prove_conjectures_drops_errors [of demo_env 0 "[''g1'', ''bad'', ''g2'']" "''t''" "[]" False]
  by (simp add: demo_env_def demo_try_prove_def result_of_def truthy_def)

section \<open>Validation loss\<close>

text \<open>
  C8. The validation loss is the negated arithmetic mean of the log-probabilities of the
  successful evaluation results when there is one, and 10 when there is none.
\<close>

theorem get_val_loss_spec:
  fixes E :: "'a env"
  defines "results a goals th ps \<equiv> prove_conjectures E a goals th ps True"
  shows "((\<exists>r \<in> set (results a goals th ps). success r) \<longrightarrow>
            fst (get_val_loss E a goals th ps) =
              - (sum_list (map StudentResult.logprob (filter success (results a goals th ps)))
                 / real (length (filter success (results a goals th ps)))))
         \<and> (\<not> (\<exists>r \<in> set (results a goals th ps). success r) \<longrightarrow>
            fst (get_val_loss E a goals th ps) = 10)"
proof -
  let ?rs = "results a goals th ps"
  have ne: "(\<exists>r \<in> set ?rs. success r) \<longleftrightarrow> filter success ?rs \<noteq> []"
    by (simp add: filter_empty_conv)
  show ?thesis
    unfolding ne
    by (simp add: get_val_loss_def get_log_probs_filter results_def Let_def)
qed

theorem get_val_loss_spec_witness:
  "fst (get_val_loss demo_env (0::nat) [''g1'', ''bad'', ''g2''] ''t'' []) = 3 / 2
   \<and> fst (get_val_loss demo_env (0::nat) [''bad''] ''t'' []) = 10"
  using get_val_loss_spec [of demo_env 0 "[''g1'', ''bad'', ''g2'']" "''t''" "[]"]
        get_val_loss_spec [of demo_env 0 "[''bad'']" "''t''" "[]"]
  by (simp add: prove_conjectures_filter demo_env_def demo_try_prove_def result_of_def truthy_def)

section \<open>The proven ratio\<close>

lemma outcome_statistics_eq:
  "outcome_statistics rs cs =
     (if cs = [] then Inl ZeroDivisionError
      else Inr (get_log_probs rs, real (length (filter success rs)) / real (length cs)))"
  by (simp add: outcome_statistics_def truediv_def get_log_probs_filter)

lemma round_examples_ratio:
  assumes "round_examples E C G st = Inr (Some (exs, pci, ratio, mean, st'))"
  shows "outcome_statistics
           (prove_conjectures E (agent st) (final_goals_formatted G) (thy G) (theory_premises C) False)
           (final_goals_formatted G) =
         Inr (get_log_probs (prove_conjectures E (agent st) (final_goals_formatted G) (thy G)
                (theory_premises C) False), ratio)"
  using assms
  by (auto simp: round_examples_def extend_results_def Let_def outcome_statistics_eq
           split: if_splits sum.splits prod.splits)

lemma demo_round:
  "round_examples demo_env demo_cfg demo_loaded demo_state =
     Inr (Some ([''Conj:(hard) g1'', ''step of g1'', ''Conj:(hard) g2'', ''step of g2''],
                [''g1'', ''g2''], 2 / 3, - (3 / 2),
                demo_state\<lparr>proven_conjectures := [''g1'', ''g2''],
                            proofs := [''proof of g1'', ''proof of g2''],
                            student_result := Some (result_of ''g2'' None True (- 2) 8 [])\<rparr>))"
  by (simp add: round_examples_def extend_results_def prove_conjectures_filter demo_env_def demo_try_prove_def
      result_of_def truthy_def demo_cfg_def demo_loaded_def demo_state_def initial_state_def
      outcome_statistics_def get_log_probs_filter truediv_def mean_or_zero_def conj_example_def
      FAIL_def)

text \<open>
  C3. The ratio of a round is the number of conjectures whose job came back without an
  error and with \<open>success\<close>, divided by the number of conjectures submitted: a dropped job
  stays in the denominator, and zero successes give 0. With no conjecture at all the
  division raises. The ratio an iteration hands on is this quotient.
\<close>

theorem ratio_proven_spec:
  fixes E :: "'a env"
  defines "proved a th ps cs \<equiv>
             filter (\<lambda>c. \<not> truthy (error (try_prove E a (th, ps) c False))
                          \<and> success (try_prove E a (th, ps) c False)) cs"
  shows "outcome_statistics (prove_conjectures E a cs th ps False) cs =
           (if cs = [] then Inl ZeroDivisionError
            else Inr (get_log_probs (prove_conjectures E a cs th ps False),
                      real (length (proved a th ps cs)) / real (length cs)))
         \<and> (round_examples E C G st = Inr (Some (exs, pci, ratio, mean, st')) \<longrightarrow>
              ratio = real (length (proved (agent st) (thy G) (theory_premises C)
                                      (final_goals_formatted G)))
                      / real (length (final_goals_formatted G)))"
proof -
  have count: "length (filter success (prove_conjectures E b ds t qs False)) =
               length (proved b t qs ds)" for b ds t qs
    by (simp add: prove_conjectures_filter proved_def filter_map o_def conj_commute)
  have first: "outcome_statistics (prove_conjectures E a cs th ps False) cs =
           (if cs = [] then Inl ZeroDivisionError
            else Inr (get_log_probs (prove_conjectures E a cs th ps False),
                      real (length (proved a th ps cs)) / real (length cs)))"
    by (simp add: outcome_statistics_eq count)
  have second: "ratio = real (length (proved (agent st) (thy G) (theory_premises C)
                                      (final_goals_formatted G)))
                      / real (length (final_goals_formatted G))"
    if "round_examples E C G st = Inr (Some (exs, pci, ratio, mean, st'))"
    using round_examples_ratio[OF that]
    by (simp add: outcome_statistics_eq count split: if_splits)
  from first second show ?thesis by blast
qed

theorem ratio_proven_spec_witness:
  "outcome_statistics (prove_conjectures demo_env (0::nat) [''g1'', ''bad'', ''g2''] ''t'' [] False)
     [''g1'', ''bad'', ''g2''] = Inr ([- 1, - 2], 2 / 3)
   \<and> outcome_statistics (prove_conjectures demo_env (0::nat) [''bad''] ''t'' [] False) [''bad'']
       = Inr ([], 0)
   \<and> outcome_statistics (prove_conjectures demo_env (0::nat) [] ''t'' [] False) []
       = Inl ZeroDivisionError
   \<and> (\<exists>exs pci mean st'.
        round_examples demo_env demo_cfg demo_loaded demo_state =
          Inr (Some (exs, pci, 2 / 3, mean, st')))"
  using ratio_proven_spec [of demo_env 0 "[''g1'', ''bad'', ''g2'']" "''t''" "[]"]
        ratio_proven_spec [of demo_env 0 "[''bad'']" "''t''" "[]"]
        ratio_proven_spec [of demo_env 0 "[]" "''t''" "[]"]
        demo_round
  by (simp add: prove_conjectures_filter get_log_probs_filter demo_env_def demo_try_prove_def
      result_of_def truthy_def)

section \<open>Resuming in per-iteration mode\<close>

lemma digits_small: "digits 0 = ''0''" "digits 1 = ''1''" "digits 2 = ''2''"
  by code_simp+

lemma scan_two: "scan_checkpoints two_checkpoints ''run'' 0 = 2"
  by code_simp

lemma scan_checkpoints_missing:
  "\<not> path_exists fs (d, pt_name (int (scan_checkpoints fs d i)))"
proof (induction fs d i rule: scan_checkpoints.induct)
  case (1 fs d i)
  then show ?case
    by (cases "path_exists fs (d, pt_name (int i))") (simp_all add: scan_checkpoints.simps[of fs d i])
qed

lemma resume_per_iteration_raises:
  assumes "continue_dir C = Some d" "checkpoint_per_iteration C"
  shows "resume C a0 fs d0 = Inl FileNotFoundError"
  using assms scan_checkpoints_missing[of fs d 0]
  by (simp add: resume_def torch_load_def path_exists_def)

text \<open>
  C1. With \<^verbatim>\<open>0.pt\<close> and \<^verbatim>\<open>1.pt\<close> in the run directory the scan stops at 2, the first
  index without a file, not at 1, the largest index with one; \<^verbatim>\<open>torch.load\<close> is then
  called on \<^verbatim>\<open>2.pt\<close>, which does not exist, and the run ends with the exception before
  any iteration.
\<close>

theorem per_iteration_resume_raises:
  "scan_checkpoints two_checkpoints ''run'' 0 = 2
   \<and> path_exists two_checkpoints (''run'', pt_name 1)
   \<and> \<not> path_exists two_checkpoints (''run'', pt_name 2)
   \<and> resume resume_cfg 7 two_checkpoints ''home'' = Inl FileNotFoundError
   \<and> teacher_loop demo_env resume_cfg demo_loaded 7 two_checkpoints ''home'' = Inl FileNotFoundError"
proof -
  have ex1: "path_exists two_checkpoints (''run'', pt_name 1)"
    by code_simp
  have ex2: "\<not> path_exists two_checkpoints (''run'', pt_name 2)"
    by code_simp
  have res: "resume resume_cfg 7 two_checkpoints ''home'' = Inl FileNotFoundError"
    by (rule resume_per_iteration_raises[where d = "''run''"])
       (simp_all add: resume_cfg_def demo_cfg_def)
  have "teacher_loop demo_env resume_cfg demo_loaded 7 two_checkpoints ''home''
          = Inl FileNotFoundError"
    by (simp add: teacher_loop_def res)
  with scan_two ex1 ex2 res show ?thesis
    by blast
qed

section \<open>Hindsight examples\<close>

text \<open>
  C2. Two results whose hindsight examples share the goal \<open>h\<close>: the loop reads the
  hindsight examples of the last result only, so the example of the second result
  (\<open>b\<close>, log-probability \<open>-2\<close>) is collected and the first-encountered one (\<open>a\<close>,
  log-probability \<open>-1\<close>) is not.
\<close>

theorem hindsight_reads_last_result_only:
  "round_examples hindsight_env hindsight_cfg two_goals demo_state =
     Inr (Some ([''Conj:(fail) g1'', ''step of g1'', ''Conj:(fail) g2'', ''step of g2'',
                 ''Conj:(hard) g2'', ''b''],
                [], 0, - 2,
                demo_state\<lparr>seen_hindsight_goals := {''h''},
                            student_result := Some (hindsight_try_prove 0 (''t'', []) ''g2'' False)\<rparr>))"
  by (simp add: round_examples_def extend_results_def prove_conjectures_filter hindsight_env_def demo_env_def
      hindsight_try_prove_def result_of_def truthy_def hindsight_cfg_def demo_cfg_def
      two_goals_def demo_state_def initial_state_def outcome_statistics_def get_log_probs_filter
      truediv_def mean_or_zero_def conj_example_def FAIL_def hindsight_step_def sorted_buckets_def
      np_percentile_def first_of_def)

lemma compute_thresholds_Inr:
  "compute_thresholds pc hlp bs = Inr ts \<Longrightarrow> list_all2 (\<lambda>b t. pc hlp (snd b) = Inr t) bs ts"
  by (induction bs arbitrary: ts) (auto split: sum.splits)

lemma compute_thresholds_ok:
  "\<forall>b \<in> set bs. \<exists>t. pc hlp (snd b) = Inr t \<Longrightarrow> \<exists>ts. compute_thresholds pc hlp bs = Inr ts"
  by (induction bs) (auto split: sum.splits)

lemma compute_thresholds_empty_sample:
  assumes "\<forall>q. \<exists>e. pc [] q = Inl e" "bs \<noteq> []"
  shows "\<exists>e. compute_thresholds pc [] bs = Inl e"
proof (cases bs)
  case Nil
  with assms show ?thesis by simp
next
  case (Cons b rest)
  obtain name p where b: "b = (name, p)" by (cases b)
  from assms(1) obtain e where "pc [] p = Inl e" by blast
  with Cons b show ?thesis by simp
qed

lemma hd_sort_key_Min:
  assumes "bs \<noteq> []"
  shows "snd (hd (sort_key snd bs)) = Min (snd ` set bs)"
proof -
  let ?s = "sort_key snd bs"
  from assms have ne: "?s \<noteq> []"
    by (metis length_0_conv length_sort)
  then obtain x xs where s: "?s = x # xs"
    by (cases ?s) auto
  have "sorted (map snd ?s)"
    by (rule sorted_sort_key)
  with s have le: "\<forall>y \<in> set xs. snd x \<le> snd y"
    by simp
  have set_eq: "set bs = insert x (set xs)"
    using s by (metis list.simps(15) set_sort)
  have "Min (snd ` set bs) = snd x"
    by (rule Min_eqI) (use le set_eq in auto)
  with s show ?thesis by simp
qed

lemma first_threshold:
  assumes "compute_thresholds pc hlp bs = Inr ts" "first_of ts = Inr t0"
  shows "bs \<noteq> [] \<and> pc hlp (snd (hd bs)) = Inr t0"
  using compute_thresholds_Inr[OF assms(1)] assms(2)
  by (cases bs; cases ts) (auto simp: first_of_def)

lemma first_of_thresholds_ok:
  assumes "\<forall>b \<in> set bs. \<exists>t. pc hlp (snd b) = Inr t" "bs \<noteq> []"
  shows "\<exists>ts t0. compute_thresholds pc hlp bs = Inr ts \<and> first_of ts = Inr t0
                 \<and> pc hlp (snd (hd bs)) = Inr t0"
proof -
  from compute_thresholds_ok[of bs pc hlp, OF assms(1)] obtain ts where ts: "compute_thresholds pc hlp bs = Inr ts"
    by blast
  from compute_thresholds_Inr[OF ts] assms(2) obtain t0 rest where "ts = t0 # rest"
      "pc hlp (snd (hd bs)) = Inr t0"
    by (cases bs; cases ts) auto
  with ts show ?thesis by (auto simp: first_of_def)
qed

text \<open>The hindsight step, once its percentile calls succeed.\<close>

lemma hindsight_step_ok:
  assumes sr: "student_result st = Some sr"
      and loop: "hindsight_loop E C sr (hindsight_examples sr) (exs, {}, []) = (exs1, seen, hlp)"
      and bs: "difficulty_buckets C \<noteq> []"
      and pc: "\<forall>b \<in> set (difficulty_buckets C). \<exists>t. percentile E hlp (snd b) = Inr t"
      and t0: "percentile E hlp (Min (snd ` set (difficulty_buckets C))) = Inr t0"
  shows "hindsight_step E C st exs =
           Inr (exs1, mean_or_zero (filter (\<lambda>lp. t0 \<le> lp) hlp), st\<lparr>seen_hindsight_goals := seen\<rparr>)"
proof -
  let ?bs = "sorted_buckets C"
  have ne: "?bs \<noteq> []"
    using bs by (metis sorted_buckets_def length_0_conv length_sort)
  have all: "\<forall>b \<in> set ?bs. \<exists>t. percentile E hlp (snd b) = Inr t"
    using pc by (simp add: sorted_buckets_def)
  from first_of_thresholds_ok[of ?bs "percentile E" hlp, OF all ne] obtain ts t where
    ts: "compute_thresholds (percentile E) hlp ?bs = Inr ts" and
    f: "first_of ts = Inr t" and t: "percentile E hlp (snd (hd ?bs)) = Inr t"
    by blast
  have "snd (hd ?bs) = Min (snd ` set (difficulty_buckets C))"
    unfolding sorted_buckets_def by (rule hd_sort_key_Min[OF bs])
  with t t0 have "t = t0" by simp
  with sr loop ts f show ?thesis
    by (simp add: hindsight_step_def)
qed

text \<open>
  C5. With hindsight training enabled, once the classification loop has left a result
  \<open>sr\<close> in \<^verbatim>\<open>student_result\<close> and \<^verbatim>\<open>np.percentile\<close> returns a threshold for every bucket on
  the collected list \<open>hlp\<close>, the round's \<^verbatim>\<open>mean_hard_sol_log_prob\<close> is the arithmetic mean
  of the collected log-probabilities that are at least \<open>t0\<close>, the threshold of the bucket
  with the least percentile, and 0 when none is; the mean of the success
  log-probabilities is not what the round hands on.
\<close>

theorem hindsight_mean_spec:
  assumes on: "train_policy_on_hindsight_examples C" and search: "\<not> mcts_only C"
      and goals: "final_goals_formatted G \<noteq> []"
      and cl: "classify E C
                 (extend_results
                    (prove_conjectures E (agent st) (final_goals_formatted G) (thy G)
                       (theory_premises C) False) st)
                 ([], [], st) = (exs, pci, st1)"
      and sr: "student_result st1 = Some sr"
      and loop: "hindsight_loop E C sr (hindsight_examples sr) (exs, {}, []) = (exs1, seen, hlp)"
      and bs: "difficulty_buckets C \<noteq> []"
      and pc: "\<forall>b \<in> set (difficulty_buckets C). \<exists>t. percentile E hlp (snd b) = Inr t"
      and t0: "percentile E hlp (Min (snd ` set (difficulty_buckets C))) = Inr t0"
  shows "\<exists>ratio. round_examples E C G st =
           Inr (Some (exs1, pci, ratio,
                      (if filter (\<lambda>lp. t0 \<le> lp) hlp = [] then 0
                       else sum_list (filter (\<lambda>lp. t0 \<le> lp) hlp)
                            / real (length (filter (\<lambda>lp. t0 \<le> lp) hlp))),
                      st1\<lparr>seen_hindsight_goals := seen\<rparr>))"
proof -
  have step: "hindsight_step E C st1 exs =
           Inr (exs1, mean_or_zero (filter (\<lambda>lp. t0 \<le> lp) hlp), st1\<lparr>seen_hindsight_goals := seen\<rparr>)"
    by (rule hindsight_step_ok[OF sr loop bs pc t0])
  show ?thesis
    using on search goals cl
    by (simp add: round_examples_def outcome_statistics_eq step mean_or_zero_def Let_def)
qed

lemma rich_classify:
  "classify rich_env hindsight_cfg
     (extend_results
        (prove_conjectures rich_env (agent demo_state) (final_goals_formatted one_goal)
           (thy one_goal) (theory_premises hindsight_cfg) False) demo_state)
     ([], [], demo_state) =
   ([''Conj:(fail) g1'', ''step of g1''], [],
    demo_state\<lparr>student_result := Some (rich_try_prove 0 (''t'', []) ''g1'' False)\<rparr>)"
  by (simp add: extend_results_def prove_conjectures_filter rich_env_def demo_env_def
      rich_try_prove_def result_of_def truthy_def hindsight_cfg_def demo_cfg_def one_goal_def
      demo_state_def initial_state_def conj_example_def FAIL_def)

lemma rich_loop:
  "hindsight_loop rich_env hindsight_cfg (rich_try_prove 0 (''t'', []) ''g1'' False)
     (hindsight_examples (rich_try_prove 0 (''t'', []) ''g1'' False))
     ([''Conj:(fail) g1'', ''step of g1''], {}, []) =
   ([''Conj:(fail) g1'', ''step of g1'', ''Conj:(hard) g1'', ''a'', ''Conj:(hard) g1'', ''b'',
     ''Conj:(hard) g1'', ''d''], {''h1'', ''h2'', ''h3''}, [- 3, - 1, - 2])"
  by (auto simp add: rich_env_def demo_env_def rich_try_prove_def
      result_of_def hindsight_cfg_def demo_cfg_def conj_example_def)

lemma rich_percentiles:
  "np_percentile [- 3, - 1, - 2] 20 = Inr (- 13 / 5)"
  "np_percentile [- 3, - 1, - 2] 50 = Inr (- 2)"
  by (simp_all add: np_percentile_def)

theorem hindsight_mean_spec_witness:
  "np_percentile [- 3, - 1, - 2] (Min (snd ` set (difficulty_buckets hindsight_cfg))) = Inr (- 13 / 5)
   \<and> (\<exists>ratio. round_examples rich_env hindsight_cfg one_goal demo_state =
         Inr (Some ([''Conj:(fail) g1'', ''step of g1'', ''Conj:(hard) g1'', ''a'',
                     ''Conj:(hard) g1'', ''b'', ''Conj:(hard) g1'', ''d''],
                    [], ratio, - 3 / 2,
                    demo_state\<lparr>student_result := Some (rich_try_prove 0 (''t'', []) ''g1'' False),
                                seen_hindsight_goals := {''h1'', ''h2'', ''h3''}\<rparr>)))"
proof -
  have on: "train_policy_on_hindsight_examples hindsight_cfg"
    and search: "\<not> mcts_only hindsight_cfg"
    and bs: "difficulty_buckets hindsight_cfg \<noteq> []"
    by (simp_all add: hindsight_cfg_def demo_cfg_def)
  have goals: "final_goals_formatted one_goal \<noteq> []"
    by (simp add: one_goal_def)
  have sr: "student_result (demo_state\<lparr>student_result := Some (rich_try_prove 0 (''t'', []) ''g1'' False)\<rparr>)
              = Some (rich_try_prove 0 (''t'', []) ''g1'' False)"
    by simp
  have pc: "\<forall>b \<in> set (difficulty_buckets hindsight_cfg).
              \<exists>t. percentile rich_env [- 3, - 1, - 2] (snd b) = Inr t"
    by (simp add: hindsight_cfg_def demo_cfg_def rich_env_def demo_env_def rich_percentiles)
  have m: "Min (snd ` set (difficulty_buckets hindsight_cfg)) = 20"
    by (simp add: hindsight_cfg_def demo_cfg_def)
  have t0: "percentile rich_env [- 3, - 1, - 2] (Min (snd ` set (difficulty_buckets hindsight_cfg)))
              = Inr (- 13 / 5)"
    by (simp add: m rich_env_def demo_env_def rich_percentiles)
  from hindsight_mean_spec[OF on search goals rich_classify sr rich_loop bs pc t0] t0
  show ?thesis
    by (simp add: rich_env_def demo_env_def)
qed

lemma hindsight_step_empty_sample:
  assumes raises: "\<forall>q. \<exists>e. percentile E [] q = Inl e"
      and sr: "student_result st = Some sr"
      and loop: "hindsight_loop E C sr (hindsight_examples sr) (exs, {}, []) = (exs1, seen, [])"
  shows "\<exists>e. hindsight_step E C st exs = Inl e"
proof (cases "sorted_buckets C = []")
  case True
  with sr loop show ?thesis
    by (simp add: hindsight_step_def first_of_def)
next
  case False
  from compute_thresholds_empty_sample[of "percentile E" "sorted_buckets C", OF raises False]
  obtain e where "compute_thresholds (percentile E) [] (sorted_buckets C) = Inl e"
    by blast
  with sr loop show ?thesis
    by (simp add: hindsight_step_def)
qed

lemma hindsight_step_Inr:
  assumes "hindsight_step E C st exs = Inr (exs1, mean, st')"
  shows "\<exists>sr seen hlp. student_result st = Some sr
           \<and> hindsight_loop E C sr (hindsight_examples sr) (exs, {}, []) = (exs1, seen, hlp)
           \<and> st' = st\<lparr>seen_hindsight_goals := seen\<rparr>"
  using assms
  by (auto simp: hindsight_step_def Let_def split: option.splits prod.splits sum.splits)

lemma round_examples_hindsight:
  assumes "train_policy_on_hindsight_examples C"
      and "round_examples E C G st = Inr (Some (exs1, pci, ratio, mean, st'))"
  shows "\<exists>exs st1. hindsight_step E C st1 exs = Inr (exs1, mean, st')"
  using assms
  by (auto simp: round_examples_def Let_def split: if_splits sum.splits prod.splits)

text \<open>
  C10. With hindsight training enabled the thresholds are computed from whatever was
  collected: when the collected list is empty and \<^verbatim>\<open>np.percentile\<close> raises on an empty
  sample, the hindsight step raises, so a round that gets through it has collected at
  least one hindsight log-probability.
\<close>

theorem hindsight_needs_sample:
  assumes on: "train_policy_on_hindsight_examples C"
      and raises: "\<forall>q. \<exists>e. percentile E [] q = Inl e"
  shows "(student_result st = Some sr
            \<and> hindsight_loop E C sr (hindsight_examples sr) (exs, {}, []) = (exs1, seen, [])
          \<longrightarrow> (\<exists>e. hindsight_step E C st exs = Inl e))
         \<and> (round_examples E C G st0 = Inr (Some (exs', pci, ratio, mean, st'))
          \<longrightarrow> (\<exists>sr' exs0 seen' hlp. student_result st' = Some sr'
                  \<and> hindsight_loop E C sr' (hindsight_examples sr') (exs0, {}, []) = (exs', seen', hlp)
                  \<and> hlp \<noteq> []))"
proof (intro conjI impI)
  assume "student_result st = Some sr
            \<and> hindsight_loop E C sr (hindsight_examples sr) (exs, {}, []) = (exs1, seen, [])"
  then show "\<exists>e. hindsight_step E C st exs = Inl e"
    using hindsight_step_empty_sample[OF raises] by blast
next
  assume "round_examples E C G st0 = Inr (Some (exs', pci, ratio, mean, st'))"
  from round_examples_hindsight[OF on this] obtain exs0 st1 where
    step: "hindsight_step E C st1 exs0 = Inr (exs', mean, st')"
    by blast
  from hindsight_step_Inr[OF step] obtain sr' seen' hlp where
    sr': "student_result st1 = Some sr'" and
    loop: "hindsight_loop E C sr' (hindsight_examples sr') (exs0, {}, []) = (exs', seen', hlp)" and
    st': "st' = st1\<lparr>seen_hindsight_goals := seen'\<rparr>"
    by blast
  have "hlp \<noteq> []"
  proof
    assume "hlp = []"
    with loop have "hindsight_loop E C sr' (hindsight_examples sr') (exs0, {}, []) = (exs', seen', [])"
      by simp
    from hindsight_step_empty_sample[OF raises sr' this] step show False
      by auto
  qed
  with sr' loop st' show "\<exists>sr' exs0 seen' hlp. student_result st' = Some sr'
                  \<and> hindsight_loop E C sr' (hindsight_examples sr') (exs0, {}, []) = (exs', seen', hlp)
                  \<and> hlp \<noteq> []"
    by auto
qed

lemma rich_round:
  "round_examples rich_env hindsight_cfg one_goal demo_state =
     Inr (Some ([''Conj:(fail) g1'', ''step of g1'', ''Conj:(hard) g1'', ''a'',
                 ''Conj:(hard) g1'', ''b'', ''Conj:(hard) g1'', ''d''],
                [], 0, - 3 / 2,
                demo_state\<lparr>student_result := Some (rich_try_prove 0 (''t'', []) ''g1'' False),
                            seen_hindsight_goals := {''h1'', ''h2'', ''h3''}\<rparr>))"
  by (simp add: round_examples_def extend_results_def prove_conjectures_filter rich_env_def demo_env_def
      rich_try_prove_def result_of_def truthy_def hindsight_cfg_def demo_cfg_def
      one_goal_def demo_state_def initial_state_def outcome_statistics_def get_log_probs_filter
      truediv_def mean_or_zero_def conj_example_def FAIL_def hindsight_step_def sorted_buckets_def
      np_percentile_def first_of_def insert_commute)

lemma np_percentile_empty: "\<forall>q. \<exists>e. np_percentile [] q = Inl e"
  by (simp add: np_percentile_def)

theorem hindsight_needs_sample_witness:
  "(\<forall>q. \<exists>e. percentile demo_env [] q = Inl e)
   \<and> (\<exists>e. hindsight_step demo_env hindsight_cfg
              (demo_state\<lparr>student_result := Some (result_of ''g2'' None True (- 2) 8 [])\<rparr>)
              [''step of g2''] = Inl e)
   \<and> (\<exists>sr' exs0 seen' hlp.
         hindsight_loop rich_env hindsight_cfg sr' (hindsight_examples sr') (exs0, {}, []) =
           ([''Conj:(fail) g1'', ''step of g1'', ''Conj:(hard) g1'', ''a'',
             ''Conj:(hard) g1'', ''b'', ''Conj:(hard) g1'', ''d''], seen', hlp)
         \<and> hlp \<noteq> [])"
proof -
  have on: "train_policy_on_hindsight_examples hindsight_cfg"
    by (simp add: hindsight_cfg_def demo_cfg_def)
  have raises: "\<forall>q. \<exists>e. percentile demo_env [] q = Inl e"
    and raises': "\<forall>q. \<exists>e. percentile rich_env [] q = Inl e"
    using np_percentile_empty by (simp_all add: rich_env_def demo_env_def)
  have empty: "student_result (demo_state\<lparr>student_result := Some (result_of ''g2'' None True (- 2) 8 [])\<rparr>)
                 = Some (result_of ''g2'' None True (- 2) 8 [])
               \<and> hindsight_loop demo_env hindsight_cfg (result_of ''g2'' None True (- 2) 8 [])
                   (hindsight_examples (result_of ''g2'' None True (- 2) 8 []))
                   ([''step of g2''], {}, []) = ([''step of g2''], {}, [])"
    by (simp add: result_of_def)
  from hindsight_needs_sample[OF on raises, THEN conjunct1, rule_format, OF empty]
       hindsight_needs_sample[OF on raises', THEN conjunct2, rule_format, OF rich_round]
       raises
  show ?thesis
    by blast
qed

section \<open>Rolling checkpoints\<close>

lemma classify_frame:
  "classify E C rs (exs, pci, st) = (exs', pci', st') \<Longrightarrow>
     agent st' = agent st \<and> cwd st' = cwd st \<and> files st' = files st
     \<and> model_info st' = model_info st \<and> mle_log st' = mle_log st
     \<and> student_results_final st' = student_results_final st"
proof (induction rs arbitrary: exs pci st)
  case Nil
  then show ?case by simp
next
  case (Cons r rs)
  from Cons.prems show ?case
    by (auto simp: Let_def dest!: Cons.IH split: if_splits)
qed

lemma round_examples_frame:
  assumes "round_examples E C G st = Inr (Some (exs, pci, ratio, mean, st1))"
  shows "agent st1 = agent st \<and> cwd st1 = cwd st \<and> files st1 = files st
     \<and> model_info st1 = model_info st \<and> mle_log st1 = mle_log st
     \<and> student_results_final st1 = student_results_final st"
  using assms
  by (auto simp: round_examples_def Let_def hindsight_step_def
           split: if_splits sum.splits prod.splits option.splits dest!: classify_frame)

lemma iteration_cases:
  assumes "iteration E C G i st = Inr (ctl, st')"
  shows "(ctl = SearchOnlyBreak \<and> st' = st \<and> round_examples E C G st = Inr None)
       \<or> (ctl \<noteq> SearchOnlyBreak \<and>
           (\<exists>exs pci ratio mean st1 a m.
              round_examples E C G st = Inr (Some (exs, pci, ratio, mean, st1))
              \<and> st' = save_iteration C i exs pci (st1\<lparr>agent := a, mle_log := m\<rparr>)))"
proof (cases "round_examples E C G st")
  case (Inl e)
  with assms show ?thesis by (simp add: iteration_def)
next
  case (Inr r)
  show ?thesis
  proof (cases r)
    case None
    with Inr assms show ?thesis by (auto simp: iteration_def)
  next
    case (Some q)
    obtain exs pci ratio mean st1 where q: "q = (exs, pci, ratio, mean, st1)"
      by (cases q) auto
    from assms Inr Some q show ?thesis
      by (auto simp: iteration_def Let_def split: prod.splits if_splits)
  qed
qed

lemma save_iteration_rolling:
  assumes "\<not> checkpoint_per_iteration C"
  shows "rolling_checkpoint (save_iteration C i exs pci st) i"
    and "cwd (save_iteration C i exs pci st) = cwd st"
    and "agent (save_iteration C i exs pci st) = agent st"
  using assms
  by (simp_all add: save_iteration_def rolling_checkpoint_def Let_def write_file_def
      torch_load_def yaml_load_def)

lemma save_iteration_frame:
  "student_results_final (save_iteration C i exs pci st) = student_results_final st"
  by (simp add: save_iteration_def Let_def)

lemma iteration_rolling:
  assumes "\<not> checkpoint_per_iteration C" "iteration E C G i st = Inr (ctl, st')"
      "ctl \<noteq> SearchOnlyBreak"
  shows "rolling_checkpoint st' i"
  using iteration_cases[OF assms(2)] assms(1,3)
  by (auto simp: save_iteration_rolling)

lemma resume_rolling:
  assumes "\<not> checkpoint_per_iteration C" "rolling_checkpoint st k"
  shows "resume (C\<lparr>continue_dir := Some (cwd st)\<rparr>) a0 (files st) d0 =
           Inr (k + 1, agent st, model_info st, cwd st)"
  using assms
  by (simp add: resume_def rolling_checkpoint_def)

lemma teacher_iterations_rolling:
  "\<not> checkpoint_per_iteration C \<Longrightarrow> teacher_iterations E C G i st = (how, st') \<Longrightarrow>
           (next_iteration (total_iterations C) i how = i \<and> st' = st)
         \<or> (i < next_iteration (total_iterations C) i how
             \<and> rolling_checkpoint st' (next_iteration (total_iterations C) i how - 1))"
proof (induction E C G i st rule: teacher_iterations.induct)
  case (1 E C G i st)
  note rolling = "1.prems"(1) and run = "1.prems"(2)
  show ?case
  proof (cases "i < total_iterations C")
    case False
    with run show ?thesis
      by (auto simp: teacher_iterations.simps[of E C G i st] next_iteration_def)
  next
    case True
    show ?thesis
    proof (cases "iteration E C G i st")
      case (Inl e)
      with True run show ?thesis
        by (auto simp: teacher_iterations.simps[of E C G i st] next_iteration_def)
    next
      case (Inr p)
      obtain ctl st1 where p: "p = (ctl, st1)" by (cases p)
      show ?thesis
      proof (cases ctl)
        case Next
        with True Inr p run have rec: "teacher_iterations E C G (i + 1) st1 = (how, st')"
          by (simp add: teacher_iterations.simps[of E C G i st])
        have ck: "rolling_checkpoint st1 i"
          using iteration_rolling[OF rolling, of E G i st ctl st1] Inr p Next by auto
        have same: "next_iteration (total_iterations C) (i + 1) how
                      = next_iteration (total_iterations C) i how"
          using True by (cases how) (auto simp: next_iteration_def)
        from "1.IH"[OF True Inr p[symmetric] Next rolling rec] ck show ?thesis
          unfolding same by auto
      next
        case SearchOnlyBreak
        with iteration_cases[of E C G i st ctl st1] Inr p have "st1 = st"
          by auto
        with True Inr p SearchOnlyBreak run show ?thesis
          by (auto simp: teacher_iterations.simps[of E C G i st] next_iteration_def)
      next
        case ConvergedBreak
        have ck: "rolling_checkpoint st1 i"
          using iteration_rolling[OF rolling, of E G i st ctl st1] Inr p ConvergedBreak by auto
        with True Inr p ConvergedBreak run show ?thesis
          by (auto simp: teacher_iterations.simps[of E C G i st] next_iteration_def)
      qed
    qed
  qed
qed

text \<open>
  C6. In rolling mode, however a run of the loop from \<open>i0\<close> ends: if no iteration reached
  its checkpoint the state, and with it every file, is the one the loop started from;
  otherwise \<^verbatim>\<open>model_info.yaml\<close> holds under \<^verbatim>\<open>iteration\<close> the index of the last iteration
  that reached its checkpoint, \<^verbatim>\<open>model.pt\<close> holds the agent, and a fresh process
  resumed with \<^verbatim>\<open>continue\<close> set to that directory starts at that index plus one.
\<close>

theorem rolling_resume_invariant:
  assumes "\<not> checkpoint_per_iteration C"
      and "teacher_iterations E C G i0 st0 = (how, st)"
  shows "(next_iteration (total_iterations C) i0 how = i0 \<and> st = st0)
       \<or> (i0 < next_iteration (total_iterations C) i0 how
           \<and> yaml_load (files st) (cwd st, ''model_info.yaml'') = Inr (model_info st)
           \<and> model_info st ''iteration'' = Some (next_iteration (total_iterations C) i0 how - 1)
           \<and> resume (C\<lparr>continue_dir := Some (cwd st)\<rparr>) a0 (files st) d0 =
               Inr (next_iteration (total_iterations C) i0 how, agent st, model_info st, cwd st))"
proof -
  let ?n = "next_iteration (total_iterations C) i0 how"
  from teacher_iterations_rolling[OF assms] consider
    (none) "?n = i0" "st = st0" | (some) "i0 < ?n" "rolling_checkpoint st (?n - 1)"
    by blast
  then show ?thesis
  proof cases
    case none
    then show ?thesis by simp
  next
    case some
    from resume_rolling[OF assms(1) some(2), of a0 d0] some
    show ?thesis
      by (simp add: rolling_checkpoint_def)
  qed
qed

lemma short_run:
  "fst (teacher_iterations demo_env short_cfg demo_loaded 0 demo_state) = Exhausted"
  by (simp add: teacher_iterations.simps[of _ _ _ 0] teacher_iterations.simps[of _ _ _ 1]
      teacher_iterations.simps[of _ _ _ 2] iteration_def get_val_loss_def save_iteration_def
      round_examples_def extend_results_def prove_conjectures_filter demo_env_def
      demo_try_prove_def result_of_def truthy_def short_cfg_def demo_cfg_def demo_loaded_def
      demo_state_def initial_state_def outcome_statistics_def get_log_probs_filter truediv_def
      mean_or_zero_def conj_example_def FAIL_def Let_def)


theorem rolling_resume_invariant_witness:
  "\<exists>st. teacher_iterations demo_env short_cfg demo_loaded 0 demo_state = (Exhausted, st)
     \<and> model_info st ''iteration'' = Some 1
     \<and> resume (short_cfg\<lparr>continue_dir := Some (cwd st)\<rparr>) 7 (files st) ''home'' =
         Inr (2, agent st, model_info st, cwd st)"
proof -
  obtain st where run: "teacher_iterations demo_env short_cfg demo_loaded 0 demo_state = (Exhausted, st)"
    using short_run by (cases "teacher_iterations demo_env short_cfg demo_loaded 0 demo_state") auto
  have rolling: "\<not> checkpoint_per_iteration short_cfg"
    by (simp add: short_cfg_def demo_cfg_def)
  have n: "next_iteration (total_iterations short_cfg) 0 Exhausted = 2"
    by (simp add: next_iteration_def short_cfg_def demo_cfg_def)
  from rolling_resume_invariant[OF rolling run, of 7 "''home''"] run show ?thesis
    unfolding n by auto
qed

section \<open>Early exit\<close>

text \<open>
  C7. With \<^verbatim>\<open>early_exit\<close> set, if an iteration \<open>i\<close> below \<^verbatim>\<open>total_iterations\<close> gets to its
  validation and the validation returns one search-step count for every held-out goal,
  each at most \<^verbatim>\<open>max_mcts_nodes\<close>, the loop ends with the \<^verbatim>\<open>break\<close> of that iteration,
  whatever \<^verbatim>\<open>total_iterations\<close> is.
\<close>

theorem early_exit_stops:
  assumes early: "early_exit C" and below: "i < total_iterations C"
      and round: "round_examples E C G st = Inr (Some (exs, pci, ratio, mean, st1))"
      and val: "get_val_loss E (train E (agent st1) exs (final_goals G) ratio)
                  (final_goals_formatted G) (thy G) (theory_premises C) = (vl, steps)"
      and every: "length steps = length (final_goals_formatted G)"
      and solved: "\<forall>s \<in> set steps. s \<le> max_mcts_nodes C"
  shows "\<exists>st'. teacher_iterations E C G i st = (Converged i, st')"
proof -
  from solved have "filter (\<lambda>s. s \<le> max_mcts_nodes C) steps = steps"
    by (simp add: filter_id_conv)
  with every have "length (filter (\<lambda>s. s \<le> max_mcts_nodes C) steps) = length (final_goals G)"
    by (simp add: final_goals_def)
  with early round val have "\<exists>st'. iteration E C G i st = Inr (ConvergedBreak, st')"
    by (simp add: iteration_def Let_def)
  with below show ?thesis
    by (auto simp: teacher_iterations.simps[of E C G i st])
qed

lemma two_goals_round:
  "round_examples demo_env demo_cfg two_goals demo_state =
     Inr (Some ([''Conj:(hard) g1'', ''step of g1'', ''Conj:(hard) g2'', ''step of g2''],
                [''g1'', ''g2''], 1, - (3 / 2),
                demo_state\<lparr>proven_conjectures := [''g1'', ''g2''],
                            proofs := [''proof of g1'', ''proof of g2''],
                            student_result := Some (result_of ''g2'' None True (- 2) 8 [])\<rparr>))"
  by (simp add: round_examples_def extend_results_def prove_conjectures_filter demo_env_def
      demo_try_prove_def result_of_def truthy_def demo_cfg_def two_goals_def demo_state_def
      initial_state_def outcome_statistics_def get_log_probs_filter truediv_def mean_or_zero_def
      conj_example_def FAIL_def Let_def)

lemma two_goals_validation:
  "get_val_loss demo_env a [''g1'', ''g2''] ''t'' [] = (3 / 2, [5, 8])"
  by (simp add: get_val_loss_def prove_conjectures_filter get_log_probs_filter demo_env_def
      demo_try_prove_def result_of_def truthy_def)

theorem early_exit_stops_witness:
  "total_iterations demo_cfg = 1000000
   \<and> (\<exists>st'. teacher_iterations demo_env demo_cfg two_goals 0 demo_state = (Converged 0, st'))"
proof -
  have early: "early_exit demo_cfg" and below: "0 < total_iterations demo_cfg"
    and total: "total_iterations demo_cfg = 1000000"
    by (simp_all add: demo_cfg_def)
  have val: "get_val_loss demo_env
               (train demo_env
                  (agent (demo_state\<lparr>proven_conjectures := [''g1'', ''g2''],
                            proofs := [''proof of g1'', ''proof of g2''],
                            student_result := Some (result_of ''g2'' None True (- 2) 8 [])\<rparr>))
                  [''Conj:(hard) g1'', ''step of g1'', ''Conj:(hard) g2'', ''step of g2'']
                  (final_goals two_goals) 1)
               (final_goals_formatted two_goals) (thy two_goals) (theory_premises demo_cfg)
             = (3 / 2, [5, 8])"
    by (simp add: two_goals_def demo_cfg_def two_goals_validation)
  have every: "length [5, 8 :: int] = length (final_goals_formatted two_goals)"
    by (simp add: two_goals_def)
  have solved: "\<forall>s \<in> set [5, 8 :: int]. s \<le> max_mcts_nodes demo_cfg"
    by (simp add: demo_cfg_def)
  from early_exit_stops[OF early below two_goals_round val every solved] total
  show ?thesis by simp
qed

section \<open>The list appended before classification\<close>

lemma iteration_frame:
  assumes "iteration E C G i st = Inr (ctl, st')"
  shows "student_results_final st' = student_results_final st"
  using iteration_cases[OF assms]
  by (auto simp: save_iteration_frame dest!: round_examples_frame)

text \<open>
  C9. Whenever the loop head is reached, \<^verbatim>\<open>student_results_final\<close> is still the empty
  list it was initialised with, so the list the classification loop runs over, the
  dispatcher's results extended by it, is the list of the dispatcher's results.
\<close>

theorem student_results_final_empty:
  assumes "reachable E C G a0 fs d0 i st"
  shows "student_results_final st = []
         \<and> extend_results
             (prove_conjectures E (agent st) (final_goals_formatted G) (thy G) (theory_premises C) False)
             st
           = prove_conjectures E (agent st) (final_goals_formatted G) (thy G) (theory_premises C) False"
proof -
  from assms have "student_results_final st = []"
  proof (induction rule: reachable.induct)
    case (start i a mi d)
    then show ?case by (simp add: initial_state_def)
  next
    case (step i st st1)
    then show ?case by (simp add: iteration_frame)
  qed
  then show ?thesis
    by (simp add: extend_results_def)
qed

lemma short_first_iteration:
  "\<exists>st1. iteration demo_env short_cfg demo_loaded 0 demo_state = Inr (Next, st1)"
  by (simp add: iteration_def get_val_loss_def save_iteration_def final_goals_def
      round_examples_def extend_results_def prove_conjectures_filter demo_env_def
      demo_try_prove_def result_of_def truthy_def short_cfg_def demo_cfg_def demo_loaded_def
      demo_state_def initial_state_def outcome_statistics_def get_log_probs_filter truediv_def
      mean_or_zero_def conj_example_def FAIL_def Let_def)

theorem student_results_final_empty_witness:
  "\<exists>st1. reachable demo_env short_cfg demo_loaded 0 [] ''run'' 1 st1
     \<and> student_results_final st1 = []
     \<and> extend_results
          (prove_conjectures demo_env (agent st1) (final_goals_formatted demo_loaded)
             (thy demo_loaded) (theory_premises short_cfg) False) st1
        = [result_of ''g1'' None True (- 1) 5 [], result_of ''g2'' None True (- 2) 8 []]"
proof -
  have "resume short_cfg 0 [] ''run'' = Inr (0, 0, Map.empty, ''run'')"
    by (simp add: resume_def short_cfg_def demo_cfg_def)
  then have r0: "reachable demo_env short_cfg demo_loaded 0 [] ''run'' 0 demo_state"
    unfolding demo_state_def by (rule reachable.start)
  obtain st1 where it: "iteration demo_env short_cfg demo_loaded 0 demo_state = Inr (Next, st1)"
    using short_first_iteration by blast
  have below: "0 < total_iterations short_cfg"
    by (simp add: short_cfg_def demo_cfg_def)
  from reachable.step[OF r0 below it]
  have r1: "reachable demo_env short_cfg demo_loaded 0 [] ''run'' 1 st1"
    by simp
  have disp: "prove_conjectures demo_env (agent st1) (final_goals_formatted demo_loaded)
             (thy demo_loaded) (theory_premises short_cfg) False
        = [result_of ''g1'' None True (- 1) 5 [], result_of ''g2'' None True (- 2) 8 []]"
    by (simp add: prove_conjectures_filter demo_env_def demo_try_prove_def result_of_def
        truthy_def demo_loaded_def)
  from student_results_final_empty[OF r1] r1 disp show ?thesis
    by auto
qed

end
